theory Spec2Isabelle
  imports Main
begin

section \<open>The date picker of fluent-controls: text buffer, parser and notifications\<close>

text \<open>
  This theory embeds the input logic of \<^verbatim>\<open>DatePicker.tsx\<close>
  (\<^verbatim>\<open>packages/fluent-controls/src/components/DateTime\<close>): the typing assist
  (\<^verbatim>\<open>handleMonth\<close>, \<^verbatim>\<open>handleDay\<close>, \<^verbatim>\<open>handleTyping\<close>), the backspace
  rule (\<^verbatim>\<open>handleDeletion\<close>), the buffer parser (\<^verbatim>\<open>parse\<close>), the edit handler
  (\<^verbatim>\<open>onInput\<close>), the calendar selection (\<^verbatim>\<open>onSelect\<close>), the initial state
  (\<^verbatim>\<open>getInitialState\<close>) and the notifications of \<^verbatim>\<open>componentDidUpdate\<close>.
  Component state and the \<^verbatim>\<open>paste\<close> instance field are passed explicitly.
\<close>

subsection \<open>JavaScript strings and numbers\<close>

text \<open>
  A string is a list of characters. \<^verbatim>\<open>s[i]\<close> is \<^verbatim>\<open>undefined\<close> outside the
  string: \<open>None\<close>. A number that may be \<^verbatim>\<open>NaN\<close> is an \<open>int option\<close> with
  \<open>None\<close> for \<^verbatim>\<open>NaN\<close>; every comparison with \<^verbatim>\<open>NaN\<close> is false.
\<close>

definition charAt :: "string \<Rightarrow> int \<Rightarrow> char option" where
  "charAt s i = (if 0 \<le> i \<and> i < int (length s) then Some (s ! nat i) else None)"

text \<open>\<^verbatim>\<open>s.substr(start, len)\<close> for \<open>start \<ge> 0\<close>; a negative length gives the empty string.\<close>

definition substr :: "string \<Rightarrow> nat \<Rightarrow> int \<Rightarrow> string" where
  "substr s start len = take (nat len) (drop start s)"

text \<open>\<^verbatim>\<open>s.split('/')\<close>: the empty string splits into one empty component.\<close>

fun split_slash :: "string \<Rightarrow> string list" where
  "split_slash [] = [[]]"
| "split_slash (c # cs) =
     (if c = CHR ''/'' then [] # split_slash cs
      else (case split_slash cs of [] \<Rightarrow> [[c]] | w # ws \<Rightarrow> (c # w) # ws))"

definition isWhiteSpace :: "char \<Rightarrow> bool" where
  "isWhiteSpace c = ((of_char c :: nat) \<in> {9, 10, 11, 12, 13, 32, 160})"

definition digitValue :: "char \<Rightarrow> nat option" where
  "digitValue c =
     (let n = (of_char c :: nat)
      in if 48 \<le> n \<and> n \<le> 57 then Some (n - 48)
         else if 97 \<le> n \<and> n \<le> 122 then Some (n - 87)
         else if 65 \<le> n \<and> n \<le> 90 then Some (n - 55)
         else None)"

definition isDigitIn :: "nat \<Rightarrow> char \<Rightarrow> bool" where
  "isDigitIn radix c = (case digitValue c of None \<Rightarrow> False | Some v \<Rightarrow> v < radix)"

text \<open>
  \<^verbatim>\<open>parseInt(s)\<close> without a radix: leading white space is skipped, a sign is read,
  a \<^verbatim>\<open>0x\<close> prefix selects base 16, and the longest run of digits is converted;
  no digit at all gives \<^verbatim>\<open>NaN\<close>. The result is an unbounded integer (the
  rounding of numbers above \<open>2^53\<close> is not modelled).
\<close>

definition parseInt :: "string \<Rightarrow> int option" where
  "parseInt s =
     (let s1 = dropWhile isWhiteSpace s;
          neg = (case s1 of [] \<Rightarrow> False | c # _ \<Rightarrow> c = CHR ''-'');
          s2 = (case s1 of [] \<Rightarrow> s1
                | c # r \<Rightarrow> if c = CHR ''-'' \<or> c = CHR ''+'' then r else s1);
          hex = (case s2 of a # b # _ \<Rightarrow> a = CHR ''0'' \<and> (b = CHR ''x'' \<or> b = CHR ''X'')
                 | _ \<Rightarrow> False);
          radix = (if hex then 16 else 10);
          s3 = (if hex then drop 2 s2 else s2);
          ds = takeWhile (isDigitIn radix) s3;
          n = foldl (\<lambda>a c. a * int radix
                 + int (case digitValue c of None \<Rightarrow> 0 | Some v \<Rightarrow> v)) 0 ds
      in if ds = [] then None else Some (if neg then - n else n))"

text \<open>\<^verbatim>\<open>parseInt(s[i])\<close>: \<^verbatim>\<open>undefined\<close> converts to a string without digits.\<close>

definition parseIntAt :: "string \<Rightarrow> int \<Rightarrow> int option" where
  "parseIntAt s i = (case charAt s i of None \<Rightarrow> None | Some c \<Rightarrow> parseInt [c])"

definition isNaN :: "int option \<Rightarrow> bool" where
  "isNaN a = (a = None)"

definition num_lt :: "int option \<Rightarrow> int \<Rightarrow> bool" where
  "num_lt a k = (case a of None \<Rightarrow> False | Some n \<Rightarrow> n < k)"

definition num_gt :: "int option \<Rightarrow> int \<Rightarrow> bool" where
  "num_gt a k = (case a of None \<Rightarrow> False | Some n \<Rightarrow> k < n)"

text \<open>\<^verbatim>\<open>n.toString()\<close> of an integer, in decimal.\<close>

fun toString_nat :: "nat \<Rightarrow> string" where
  "toString_nat n =
     (if n < 10 then [''0123456789'' ! n]
      else toString_nat (n div 10) @ [''0123456789'' ! (n mod 10)])"

declare toString_nat.simps [simp del]

definition toString :: "int \<Rightarrow> string" where
  "toString i = (if i < 0 then CHR ''-'' # toString_nat (nat (- i)) else toString_nat (nat i))"

text \<open>
  Modelled from the spec: \<^verbatim>\<open>replaceAt\<close> of \<^verbatim>\<open>DateTime/helpers\<close>, which is not
  among the sources. The spec has the typing assist "left-pad with 0" the digit just
  typed: the new text goes in at the index and the old characters from the index on
  follow it.
\<close>

definition replaceAt :: "string \<Rightarrow> nat \<Rightarrow> string \<Rightarrow> string" where
  "replaceAt v index newValue = take index v @ newValue @ drop index v"

subsection \<open>Calendar dates\<close>

text \<open>
  Modelled from the spec: \<^verbatim>\<open>MethodDate\<close> of \<^verbatim>\<open>Common\<close>, which is not among the
  sources. It wraps the platform's date object; the spec describes it as a calendar
  date built from (year, month - 1, day) with hour, minute and second carried over,
  whose day overflows into the following month, and whose constructor reads a year
  below 100 as a year of the twentieth century. The model keeps the calendar fields
  as read back in the time zone mode they were written in (the offset between local
  time and UTC is not modelled), on the proleptic Gregorian calendar, without a bound
  on the year. \<open>md_month\<close> counts from 0.
\<close>

record MethodDate =
  md_year :: int
  md_month :: int
  md_date :: int
  md_hours :: int
  md_minutes :: int
  md_seconds :: int

text \<open>Modelled from the spec: the calendar of the platform's date object, with its leap
  years and the days of a month (month index from 0).\<close>

definition leapYear :: "int \<Rightarrow> bool" where
  "leapYear y = (y mod 4 = 0 \<and> (y mod 100 \<noteq> 0 \<or> y mod 400 = 0))"

definition daysInMonth :: "int \<Rightarrow> int \<Rightarrow> int" where
  "daysInMonth y m =
     (if m = 1 then (if leapYear y then 29 else 28)
      else if m = 3 \<or> m = 5 \<or> m = 8 \<or> m = 10 then 30
      else 31)"

text \<open>Modelled from the spec: the overflow of the platform's date object, which
  \<^verbatim>\<open>MethodDate\<close> wraps. A month index outside 0..11 is carried into the year and a
  day outside the month into the neighbouring months.\<close>

function normalizeDay :: "int \<Rightarrow> int \<Rightarrow> int \<Rightarrow> int \<times> int \<times> int" where
  "normalizeDay y m d =
     (if m < 0 \<or> 11 < m then normalizeDay (y + m div 12) (m mod 12) d
      else if daysInMonth y m < d then
        (if m = 11 then normalizeDay (y + 1) 0 (d - daysInMonth y m)
         else normalizeDay y (m + 1) (d - daysInMonth y m))
      else if d < 1 then
        (if m = 0 then normalizeDay (y - 1) 11 (d + daysInMonth (y - 1) 11)
         else normalizeDay y (m - 1) (d + daysInMonth y (m - 1)))
      else (y, m, d))"
  by pat_completeness auto
termination
  by (relation "measure (\<lambda>(y, m, d). (if m < 0 \<or> 11 < m then 1 else 0)
            + (if d < 1 then nat (1 - d) + 32 else nat d))")
    (auto simp: daysInMonth_def)

declare normalizeDay.simps [simp del]

text \<open>Modelled from the spec: the date object of the given calendar fields and time
  of day; seconds beyond a day carry into the day.\<close>

definition makeDate :: "int \<Rightarrow> int \<Rightarrow> int \<Rightarrow> int \<Rightarrow> int \<Rightarrow> int \<Rightarrow> MethodDate" where
  "makeDate y m d h mi s =
     (let t = h * 3600 + mi * 60 + s;
          tod = t mod 86400
      in case normalizeDay y m (d + t div 86400) of
           (y', m', d') \<Rightarrow>
             \<lparr>md_year = y', md_month = m', md_date = d', md_hours = tod div 3600,
              md_minutes = (tod mod 3600) div 60, md_seconds = tod mod 60\<rparr>)"

text \<open>Modelled from the spec:
  \<^verbatim>\<open>new MethodDate(localTimezone, year, month, date, hours, minutes, seconds)\<close>.
  The platform's constructor reads a year from 0 to 99 as 1900 + year, the century
  assumption of the spec.\<close>

definition newMethodDate :: "bool \<Rightarrow> int \<Rightarrow> int \<Rightarrow> int \<Rightarrow> int \<Rightarrow> int \<Rightarrow> int \<Rightarrow> MethodDate" where
  "newMethodDate local y m d h mi s =
     makeDate (if 0 \<le> y \<and> y \<le> 99 then 1900 + y else y) m d h mi s"

text \<open>Modelled from the spec: \<^verbatim>\<open>dateObject.setFullYear(year, month, date)\<close> and
  its UTC twin, which set the full year field as it is given and keep the time of
  day.\<close>

definition setFullYear :: "MethodDate \<Rightarrow> int \<Rightarrow> int \<Rightarrow> int \<Rightarrow> MethodDate" where
  "setFullYear dt y m d = makeDate y m d (md_hours dt) (md_minutes dt) (md_seconds dt)"

definition setUTCFullYear :: "MethodDate \<Rightarrow> int \<Rightarrow> int \<Rightarrow> int \<Rightarrow> MethodDate" where
  "setUTCFullYear dt y m d = makeDate y m d (md_hours dt) (md_minutes dt) (md_seconds dt)"

text \<open>Modelled from the spec: \<^verbatim>\<open>MethodDate.fromDate(localTimezone, date)\<close> and
  \<^verbatim>\<open>date.copy()\<close> of \<^verbatim>\<open>MethodDate\<close>, which wrap the same calendar fields.\<close>

definition fromDate :: "bool \<Rightarrow> MethodDate \<Rightarrow> MethodDate" where
  "fromDate local d = d"

definition copy :: "MethodDate \<Rightarrow> MethodDate" where
  "copy d = d"

subsection \<open>Properties, state and the absent helpers\<close>

datatype DateFormat = MMDDYYYY | DDMMYYYY | YYYYMMDD

text \<open>\<^verbatim>\<open>props.initialValue\<close>: absent, a string, or a date object, which may be the
  platform's invalid date (\<open>None\<close>). Of the properties the input logic reads
  \<^verbatim>\<open>initialValue\<close>, \<^verbatim>\<open>localTimezone\<close>, \<^verbatim>\<open>format\<close> and whether the optional
  callback \<^verbatim>\<open>onPaste\<close> is supplied (\<open>has_onPaste\<close>); a call of \<^verbatim>\<open>onChange\<close> or
  \<^verbatim>\<open>onPaste\<close> is recorded as a notification.\<close>

datatype seed = NoSeed | StringSeed string | DateSeed "MethodDate option"

record DatePickerProps =
  prop_initialValue :: seed
  localTimezone :: bool
  format :: DateFormat
  has_onPaste :: bool

record DatePickerState =
  value_str :: string
  dateValue :: "MethodDate option"
  initialValue :: "MethodDate option"
  visible :: bool
  invalid :: bool
  error :: bool

text \<open>
  The functions of \<^verbatim>\<open>Common\<close> and \<^verbatim>\<open>DateTime/helpers\<close> that read or print free
  text are not among the sources and are parameters of the model:
  \<^verbatim>\<open>MethodDate.fromString(localTimezone, s)\<close> (\<open>None\<close> for \<^verbatim>\<open>null\<close>),
  \<^verbatim>\<open>formatDate(date, format, localTimezone)\<close> and
  \<^verbatim>\<open>dateIsValid(date, localTimezone)\<close> on a date object that may be invalid,
  \<^verbatim>\<open>dateObject.toUTCString()\<close>, and the current time of \<^verbatim>\<open>new MethodDate(local)\<close>.
\<close>

record helpers =
  fromString :: "bool \<Rightarrow> string \<Rightarrow> MethodDate option"
  formatDate :: "MethodDate option \<Rightarrow> DateFormat \<Rightarrow> bool \<Rightarrow> string"
  dateIsValid :: "MethodDate option \<Rightarrow> bool \<Rightarrow> bool"
  toUTCString :: "MethodDate \<Rightarrow> string"
  today :: "bool \<Rightarrow> MethodDate"

text \<open>The instance field \<^verbatim>\<open>paste: boolean | string\<close>, which the code also sets to
  \<^verbatim>\<open>null\<close>.\<close>

datatype paste = PasteFalse | PasteTrue | PasteNull | PasteString string

fun truthy :: "paste \<Rightarrow> bool" where
  "truthy PasteFalse = False"
| "truthy PasteTrue = True"
| "truthy PasteNull = False"
| "truthy (PasteString s) = (s \<noteq> [])"

datatype notification = OnChange string | OnPaste string

datatype jsError = TypeError

subsection \<open>The typing assist\<close>

text \<open>\<^verbatim>\<open>handleMonth(newValue, position)\<close>; a rejected character gives back
  \<^verbatim>\<open>this.state.value\<close>.\<close>

definition handleMonth :: "DatePickerState \<Rightarrow> string \<Rightarrow> nat \<Rightarrow> string" where
  "handleMonth st newValue position =
     (let lastNum = parseIntAt newValue (int (length newValue) - 1);
          suffix = (if position < 3 then ''/'' else '''')
      in if length newValue = 1 \<or> charAt newValue (int (length newValue) - 2) = Some CHR ''/''
         then
           (case lastNum of
              None \<Rightarrow> newValue
            | Some n \<Rightarrow>
                if 1 < n then
                  (if 1 < position then replaceAt newValue (length newValue - 1) ''0''
                   else ''0'' @ toString n) @ suffix
                else newValue)
         else
           (let otherLastNum = parseIntAt newValue (int (length newValue) - 2)
            in if num_lt otherLastNum 1 then newValue @ suffix
               else if num_lt lastNum 3 then newValue @ suffix
               else value_str st))"

text \<open>\<^verbatim>\<open>handleDay(newValue, position)\<close>.\<close>

definition handleDay :: "DatePickerState \<Rightarrow> string \<Rightarrow> nat \<Rightarrow> string" where
  "handleDay st newValue position =
     (let lastNum = parseIntAt newValue (int (length newValue) - 1);
          suffix = (if position < 3 then ''/'' else '''')
      in if length newValue = 1 \<or> charAt newValue (int (length newValue) - 2) = Some CHR ''/''
         then
           (case lastNum of
              None \<Rightarrow> newValue
            | Some n \<Rightarrow>
                if 3 < n then
                  (if 1 < position then replaceAt newValue (length newValue - 1) ''0''
                   else ''0'' @ toString n) @ suffix
                else newValue)
         else
           (let otherLastNum = parseIntAt newValue (int (length newValue) - 2)
            in if num_lt otherLastNum 3 then newValue @ suffix
               else if num_lt lastNum 2 then newValue @ suffix
               else value_str st))"

text \<open>\<^verbatim>\<open>handleTyping(newValue)\<close>: the dispatch on the format and on the length of
  the new text.\<close>

definition handleTyping :: "DatePickerProps \<Rightarrow> DatePickerState \<Rightarrow> string \<Rightarrow> string" where
  "handleTyping props st newValue =
     (case format props of
        YYYYMMDD \<Rightarrow>
          if length newValue = 4 then newValue @ ''/''
          else if length newValue = 6 then handleMonth st newValue 2
          else if length newValue = 7 then handleMonth st newValue 2
          else if length newValue = 9 then handleDay st newValue 3
          else if 10 < length newValue then take 10 newValue
          else newValue
      | MMDDYYYY \<Rightarrow>
          if length newValue = 1 then handleMonth st newValue 1
          else if length newValue = 2 then handleMonth st newValue 1
          else if length newValue = 4 then handleDay st newValue 2
          else if length newValue = 5 then handleDay st newValue 2
          else if 10 < length newValue then take 10 newValue
          else newValue
      | DDMMYYYY \<Rightarrow>
          if length newValue = 1 then handleDay st newValue 1
          else if length newValue = 2 then handleDay st newValue 1
          else if length newValue = 4 then handleMonth st newValue 2
          else if length newValue = 5 then handleMonth st newValue 2
          else if 10 < length newValue then take 10 newValue
          else newValue)"

text \<open>\<^verbatim>\<open>handleDeletion(newValue)\<close>: when the old buffer ended with the separator,
  one more character goes.\<close>

definition handleDeletion :: "DatePickerState \<Rightarrow> string \<Rightarrow> string" where
  "handleDeletion st newValue =
     (if charAt (value_str st) (int (length (value_str st)) - 1) = Some CHR ''/''
      then substr newValue 0 (int (length newValue) - 1)
      else newValue)"

subsection \<open>The parser\<close>

record ParseResult =
  year :: "int option"
  month :: "int option"
  date :: "int option"
  valid :: bool

text \<open>The date that \<^verbatim>\<open>parse\<close> constructs from its three numbers, with the time of
  day of \<^verbatim>\<open>this.state.initialValue\<close> when there is one.\<close>

definition parsedDate :: "DatePickerProps \<Rightarrow> DatePickerState \<Rightarrow> int \<Rightarrow> int \<Rightarrow> int \<Rightarrow> MethodDate" where
  "parsedDate props st y m d =
     (case initialValue st of
        Some iv \<Rightarrow>
          newMethodDate (localTimezone props) y (m - 1) d
            (md_hours iv) (md_minutes iv) (md_seconds iv)
      | None \<Rightarrow> newMethodDate (localTimezone props) y (m - 1) d 0 0 0)"

text \<open>
  \<^verbatim>\<open>parse(newValue)\<close>. The list of components is padded with \<^verbatim>\<open>'-1'\<close> up to
  three entries, so the three reads are inside the list. The date is constructed only
  when the three bound checks have passed, where no component is \<^verbatim>\<open>NaN\<close>.
\<close>

definition parse :: "DatePickerProps \<Rightarrow> DatePickerState \<Rightarrow> string \<Rightarrow> ParseResult" where
  "parse props st newValue =
     (let split0 = split_slash newValue;
          valid0 = (length split0 = 3);
          split = split0 @ replicate (3 - length split0) ''-1'';
          year = (case format props of
                    DDMMYYYY \<Rightarrow> parseInt (split ! 2)
                  | MMDDYYYY \<Rightarrow> parseInt (split ! 2)
                  | YYYYMMDD \<Rightarrow> parseInt (split ! 0));
          month = (case format props of
                     DDMMYYYY \<Rightarrow> parseInt (split ! 1)
                   | MMDDYYYY \<Rightarrow> parseInt (split ! 0)
                   | YYYYMMDD \<Rightarrow> parseInt (split ! 1));
          date = (case format props of
                    DDMMYYYY \<Rightarrow> parseInt (split ! 0)
                  | MMDDYYYY \<Rightarrow> parseInt (split ! 1)
                  | YYYYMMDD \<Rightarrow> parseInt (split ! 2));
          valid1 = (if isNaN year \<or> num_lt year 1 then False else valid0);
          valid2 = (if isNaN month \<or> num_lt month 1 \<or> num_gt month 12 then False else valid1);
          valid3 = (if isNaN date \<or> num_lt date 1 \<or> num_gt date 31 then False else valid2);
          valid4 =
            (if valid3 then
               (case (year, month, date) of
                  (Some y, Some m, Some d) \<Rightarrow>
                    (let parsed = parsedDate props st y m d
                     in if m \<noteq> md_month parsed + 1 \<or> d \<noteq> md_date parsed then False
                        else True)
                | _ \<Rightarrow> False)
             else False)
      in \<lparr>year = year, month = month, date = date, valid = valid4\<rparr>)"

subsection \<open>The edit handler\<close>

text \<open>
  \<^verbatim>\<open>onInput(event)\<close> up to the test for the empty buffer: the paste, deletion
  and addition branches. The result is the new text, the flag \<^verbatim>\<open>invalid\<close>, the
  local \<^verbatim>\<open>initialValue\<close> and \<^verbatim>\<open>dateValue\<close>, and the field \<^verbatim>\<open>paste\<close>.
\<close>

definition onInput_edit ::
  "helpers \<Rightarrow> DatePickerProps \<Rightarrow> DatePickerState \<Rightarrow> paste \<Rightarrow> string
    \<Rightarrow> string \<times> bool \<times> MethodDate option \<times> MethodDate option \<times> paste" where
  "onInput_edit hp props st paste raw =
     (if truthy paste then
        (case fromString hp (localTimezone props) raw of
           Some dt \<Rightarrow>
             (formatDate hp (Some dt) (format props) (localTimezone props), False,
              Some dt, Some (copy dt), PasteString (toUTCString hp dt))
         | None \<Rightarrow> (raw, True, initialValue st, None, PasteNull))
      else if length raw \<le> length (value_str st) then
        (if length (value_str st) - length raw = 1 then
           (let oldValue = charAt (value_str st) (int (length (value_str st)) - 1)
            in if 0 < length (value_str st) then
                 (if charAt raw (int (length raw) - 1) \<noteq> oldValue then
                    (let newValue = handleDeletion st raw
                     in (newValue,
                         (if length newValue \<le> 10
                          then (if valid (parse props st newValue) then False else True)
                          else True),
                         initialValue st, dateValue st, paste))
                  else (raw, True, initialValue st, dateValue st, paste))
               else (raw, invalid st, initialValue st, dateValue st, paste))
         else
           (raw, (if length raw = 0 then True else invalid st),
            initialValue st, dateValue st, paste))
      else
        (if length raw \<le> 10 then
           (let oldSlice = substr (value_str st) 0 (int (length (value_str st)) - 1);
                newSlice = substr raw 0 (int (length raw) - 2)
            in if 1 < length raw \<and> newSlice \<noteq> oldSlice then
                 (raw, True, initialValue st, dateValue st, paste)
               else if \<not> invalid st then
                 (handleTyping props st raw, invalid st, initialValue st, dateValue st, paste)
               else (raw, invalid st, initialValue st, dateValue st, paste))
         else if \<not> invalid st then
           (value_str st, invalid st, initialValue st, dateValue st, paste)
         else (raw, invalid st, initialValue st, dateValue st, paste)))"

text \<open>
  The rest of \<^verbatim>\<open>onInput\<close>: a text of more than 11 characters is read again as
  free text, any other goes to the parser. \<^verbatim>\<open>initialValue.hours\<close> on a
  \<^verbatim>\<open>null\<close> reference date throws. The last case of the inner distinction is not
  reached: a valid parse result has no \<^verbatim>\<open>NaN\<close> field.
\<close>

definition onInput_resolve ::
  "helpers \<Rightarrow> DatePickerProps \<Rightarrow> DatePickerState \<Rightarrow> string \<Rightarrow> bool
    \<Rightarrow> MethodDate option \<Rightarrow> MethodDate option
    \<Rightarrow> jsError + (string \<times> bool \<times> MethodDate option \<times> MethodDate option)" where
  "onInput_resolve hp props st newValue invalid0 initialValue0 dateValue0 =
     (if 11 < length newValue then
        (case fromString hp (localTimezone props) newValue of
           Some dt \<Rightarrow>
             Inr (formatDate hp (Some dt) (format props) (localTimezone props), False,
                  Some dt, Some dt)
         | None \<Rightarrow> Inr (newValue, True, initialValue0, None))
      else
        (let result = parse props st newValue
         in if valid result then
              (case initialValue0 of
                 None \<Rightarrow> Inl TypeError
               | Some iv \<Rightarrow>
                   (case (year result, month result, date result) of
                      (Some y, Some m, Some d) \<Rightarrow>
                        (let dv = newMethodDate (localTimezone props) y (m - 1) d
                                    (md_hours iv) (md_minutes iv) (md_seconds iv);
                             dv' = (if y < 100 then
                                      (if localTimezone props then setFullYear dv y (m - 1) d
                                       else setUTCFullYear dv y (m - 1) d)
                                    else dv)
                         in Inr (newValue, False, initialValue0, Some dv'))
                    | _ \<Rightarrow> Inr (newValue, False, initialValue0, None)))
            else Inr (newValue, invalid0, initialValue0, None)))"

text \<open>\<^verbatim>\<open>onInput(event)\<close> with \<^verbatim>\<open>event.target.value = raw\<close>: the two parts, the
  reset of \<^verbatim>\<open>invalid\<close> on an empty text between them, and \<^verbatim>\<open>setState\<close>.\<close>

definition onInput ::
  "helpers \<Rightarrow> DatePickerProps \<Rightarrow> DatePickerState \<Rightarrow> paste \<Rightarrow> string
    \<Rightarrow> jsError + (DatePickerState \<times> paste)" where
  "onInput hp props st paste raw =
     (case onInput_edit hp props st paste raw of
        (newValue, invalid1, initialValue1, dateValue1, paste') \<Rightarrow>
          (case onInput_resolve hp props st newValue
                  (if length newValue = 0 then False else invalid1) initialValue1 dateValue1 of
             Inl e \<Rightarrow> Inl e
           | Inr (newValue', invalid2, initialValue2, dateValue2) \<Rightarrow>
               Inr (st\<lparr>value_str := newValue', invalid := invalid2, error := invalid2,
                         dateValue := dateValue2, initialValue := initialValue2\<rparr>,
                    paste')))"

text \<open>\<^verbatim>\<open>onPaste(event)\<close> marks the next input event as a paste.\<close>

definition onPaste :: "paste \<Rightarrow> paste" where
  "onPaste paste = PasteTrue"

text \<open>\<^verbatim>\<open>onSelect(newValue)\<close>: the date picked in the calendar overlay.\<close>

definition onSelect :: "helpers \<Rightarrow> DatePickerProps \<Rightarrow> DatePickerState \<Rightarrow> MethodDate \<Rightarrow> DatePickerState" where
  "onSelect hp props st newValue =
     st\<lparr>value_str := formatDate hp (Some newValue) (format props) (localTimezone props),
        error := False,
        visible := False,
        dateValue := Some (fromDate (localTimezone props) newValue)\<rparr>"

subsection \<open>Notifications\<close>

text \<open>
  \<^verbatim>\<open>componentDidUpdate(oldProps, oldState)\<close>: the callbacks fired, in order, and
  the field \<^verbatim>\<open>paste\<close> afterwards. The accessibility call on the calendar is left
  out.
\<close>

definition componentDidUpdate ::
  "helpers \<Rightarrow> DatePickerProps \<Rightarrow> DatePickerState \<Rightarrow> DatePickerState \<Rightarrow> paste
    \<Rightarrow> notification list \<times> paste" where
  "componentDidUpdate hp props oldState st paste =
     (if value_str oldState \<noteq> value_str st \<or> truthy paste then
        (case dateValue st of
           Some dv \<Rightarrow>
             ((case paste of
                 PasteString s \<Rightarrow>
                   if has_onPaste props then [OnPaste s] else [OnChange (toUTCString hp dv)]
               | _ \<Rightarrow> [OnChange (toUTCString hp dv)]),
              PasteFalse)
         | None \<Rightarrow> ([OnChange ''invalid''], paste))
      else ([], paste))"

text \<open>An input event followed by the update it causes: the new state, the field
  \<^verbatim>\<open>paste\<close> and the notifications sent to the host.\<close>

definition inputEvent ::
  "helpers \<Rightarrow> DatePickerProps \<Rightarrow> DatePickerState \<Rightarrow> paste \<Rightarrow> string
    \<Rightarrow> jsError + (DatePickerState \<times> paste \<times> notification list)" where
  "inputEvent hp props st paste raw =
     (case onInput hp props st paste raw of
        Inl e \<Rightarrow> Inl e
      | Inr (st', paste') \<Rightarrow>
          (case componentDidUpdate hp props st st' paste' of
             (notes, paste'') \<Rightarrow> Inr (st', paste'', notes)))"


subsection \<open>The initial state\<close>

text \<open>\<^verbatim>\<open>if (props.initialValue)\<close>: an absent seed and the empty string are falsy.\<close>

fun seedGiven :: "seed \<Rightarrow> bool" where
  "seedGiven NoSeed = False"
| "seedGiven (StringSeed s) = (s \<noteq> [])"
| "seedGiven (DateSeed d) = True"

text \<open>
  \<^verbatim>\<open>getInitialState(props)\<close>: the fields \<^verbatim>\<open>value\<close>, \<^verbatim>\<open>invalid\<close>,
  \<^verbatim>\<open>initialValue\<close> and \<^verbatim>\<open>dateValue\<close>. A reference date that is set here has
  passed \<^verbatim>\<open>dateIsValid\<close>, so the later test for the platform's invalid date only
  catches \<^verbatim>\<open>null\<close>.
\<close>

definition getInitialState ::
  "helpers \<Rightarrow> DatePickerProps \<Rightarrow> string \<times> bool \<times> MethodDate option \<times> MethodDate option" where
  "getInitialState hp props =
     (let local = localTimezone props;
          r = (if seedGiven (prop_initialValue props) then
                 (case prop_initialValue props of
                    StringSeed s \<Rightarrow>
                      (case fromString hp local s of
                         Some dt \<Rightarrow>
                           if dateIsValid hp (Some dt) local
                           then (formatDate hp (Some dt) (format props) local, False,
                                 Some dt, Some dt)
                           else (s, True, None, None)
                       | None \<Rightarrow> (s, True, None, None))
                  | DateSeed d \<Rightarrow>
                      (let value = formatDate hp d (format props) local
                       in if \<not> dateIsValid hp d local then (value, True, None, None)
                          else (case d of
                                  Some d' \<Rightarrow>
                                    (value, False, Some (fromDate local d'),
                                     Some (fromDate local d'))
                                | None \<Rightarrow> (value, False, None, None)))
                  | NoSeed \<Rightarrow> ('''', False, None, None))
               else ('''', False, None, None))
      in case r of
           (value, invalid0, initialValue0, dateValue0) \<Rightarrow>
             (case initialValue0 of
                None \<Rightarrow> (value, invalid0, Some (today hp local), None)
              | Some iv \<Rightarrow> (value, invalid0, initialValue0, dateValue0)))"

text \<open>The constructor: the initial state with the overlay hidden and \<^verbatim>\<open>error\<close>
  equal to \<^verbatim>\<open>invalid\<close>; \<^verbatim>\<open>paste\<close> starts as \<^verbatim>\<open>false\<close>.\<close>

definition initialState :: "helpers \<Rightarrow> DatePickerProps \<Rightarrow> DatePickerState \<times> paste" where
  "initialState hp props =
     (case getInitialState hp props of
        (value, invalid0, initialValue0, dateValue0) \<Rightarrow>
          (\<lparr>value_str = value, dateValue = dateValue0, initialValue = initialValue0,
            visible = False, invalid = invalid0, error = invalid0\<rparr>, PasteFalse))"

subsection \<open>Well-formed times of day and sample data\<close>

text \<open>The time of day that a date object reads back: hours below 24, minutes and
  seconds below 60.\<close>

definition timeInDay :: "MethodDate \<Rightarrow> bool" where
  "timeInDay dt =
     (0 \<le> md_hours dt \<and> md_hours dt < 24 \<and> 0 \<le> md_minutes dt \<and> md_minutes dt < 60
      \<and> 0 \<le> md_seconds dt \<and> md_seconds dt < 60)"

fun timeInDay_opt :: "MethodDate option \<Rightarrow> bool" where
  "timeInDay_opt None = True"
| "timeInDay_opt (Some dt) = timeInDay dt"

text \<open>Sample properties, helpers and states on which the theorems are run: noon of
  3 March 2024, a free-text reader that knows one string, and a printer for that
  date.\<close>

definition sample_date :: MethodDate where
  "sample_date =
     \<lparr>md_year = 2024, md_month = 2, md_date = 3, md_hours = 12, md_minutes = 0, md_seconds = 0\<rparr>"

definition sample_props :: "DateFormat \<Rightarrow> bool \<Rightarrow> DatePickerProps" where
  "sample_props f p =
     \<lparr>prop_initialValue = NoSeed, localTimezone = True, format = f, has_onPaste = p\<rparr>"

definition sample_helpers :: helpers where
  "sample_helpers =
     \<lparr>fromString = (\<lambda>local s. if s = ''March 3, 2024'' then Some sample_date else None),
      formatDate = (\<lambda>d f local. case f of YYYYMMDD \<Rightarrow> ''2024/03/03'' | _ \<Rightarrow> ''03/03/2024''),
      dateIsValid = (\<lambda>d local. d \<noteq> None),
      toUTCString = (\<lambda>d. ''Sun, 03 Mar 2024 12:00:00 GMT''),
      today = (\<lambda>local. sample_date)\<rparr>"

definition sample_state :: "string \<Rightarrow> bool \<Rightarrow> DatePickerState" where
  "sample_state v i =
     \<lparr>value_str = v, dateValue = None, initialValue = Some sample_date,
      visible = False, invalid = i, error = i\<rparr>"

text \<open>The text that an input event leaves in the buffer; none when the handler
  throws.\<close>

definition acceptedBuffer :: "jsError + (DatePickerState \<times> paste) \<Rightarrow> string option" where
  "acceptedBuffer r = (case r of Inl e \<Rightarrow> None | Inr (st', p) \<Rightarrow> Some (value_str st'))"

text \<open>The notifications that an input event and its update send to the host.\<close>

definition notificationsOf ::
  "jsError + (DatePickerState \<times> paste \<times> notification list) \<Rightarrow> notification list" where
  "notificationsOf r = (case r of Inl e \<Rightarrow> [] | Inr (st', p, notes) \<Rightarrow> notes)"

section \<open>Properties\<close>

subsection \<open>Strings and the calendar\<close>

lemma split_slash_nonempty: "split_slash v \<noteq> []"
  by (induction v) (auto split: list.splits)

lemma charAt_last: "charAt (pre @ [c]) (int (length (pre @ [c])) - 1) = Some c"
  by (simp add: charAt_def)

lemma charAt_snoc: "charAt (ys @ [x]) (int (length ys)) = Some x"
  by (simp add: charAt_def)

lemma charAt_end: "charAt ys (int (length ys) - 1) = (if ys = [] then None else Some (last ys))"
  by (cases ys rule: rev_cases) (simp_all add: charAt_def)

lemma nat_int_pred: "nat (int n - 1) = n - 1"
  by (cases n) simp_all

lemma charAt_before_last:
  "charAt (pre @ [c]) (int (length (pre @ [c])) - 2) = (if pre = [] then None else Some (last pre))"
proof (cases pre rule: rev_cases)
  case Nil
  then show ?thesis by (simp add: charAt_def)
next
  case (snoc ys y)
  then show ?thesis by (simp add: charAt_def nth_append)
qed

lemma replaceAt_last: "replaceAt (pre @ [c]) (length (pre @ [c]) - 1) z = pre @ z @ [c]"
  by (simp add: replaceAt_def)

lemma parseIntAt_last: "parseIntAt (pre @ [c]) (int (length (pre @ [c])) - 1) = parseInt [c]"
  using charAt_last [of pre c] by (simp add: parseIntAt_def)

lemma month_digit:
  assumes "c \<in> set ''23456789''"
  shows "\<exists>n. parseInt [c] = Some n \<and> 1 < n \<and> toString n = [c]"
proof -
  from assms have "c = CHR ''2'' \<or> c = CHR ''3'' \<or> c = CHR ''4'' \<or> c = CHR ''5''
      \<or> c = CHR ''6'' \<or> c = CHR ''7'' \<or> c = CHR ''8'' \<or> c = CHR ''9''" by simp
  then show ?thesis
    by (elim disjE) (simp_all add: parseInt_def isWhiteSpace_def isDigitIn_def digitValue_def
        toString_def toString_nat.simps)
qed

lemma day_digit:
  assumes "c \<in> set ''456789''"
  shows "\<exists>n. parseInt [c] = Some n \<and> 3 < n \<and> toString n = [c]"
proof -
  from assms have "c = CHR ''4'' \<or> c = CHR ''5'' \<or> c = CHR ''6''
      \<or> c = CHR ''7'' \<or> c = CHR ''8'' \<or> c = CHR ''9''" by simp
  then show ?thesis
    by (elim disjE) (simp_all add: parseInt_def isWhiteSpace_def isDigitIn_def digitValue_def
        toString_def toString_nat.simps)
qed

lemmas js_simps = parseIntAt_def charAt_def parseInt_def isWhiteSpace_def isDigitIn_def
  digitValue_def num_lt_def num_gt_def isNaN_def toString_def toString_nat.simps replaceAt_def
  substr_def

lemmas onInput_simps = onInput_def onInput_edit_def onInput_resolve_def
  handleTyping_def handleMonth_def handleDay_def handleDeletion_def parse_def Let_def

lemmas calendar_simps = parsedDate_def newMethodDate_def makeDate_def normalizeDay.simps
  daysInMonth_def leapYear_def setFullYear_def setUTCFullYear_def copy_def fromDate_def

lemmas sample_simps = sample_props_def sample_state_def sample_helpers_def sample_date_def

lemmas event_simps = inputEvent_def componentDidUpdate_def

lemma daysInMonth_bounds: "28 \<le> daysInMonth y m \<and> daysInMonth y m \<le> 31"
  by (simp add: daysInMonth_def)

lemma normalizeDay_in_month:
  assumes "0 \<le> m" "m \<le> 11" "1 \<le> d" "d \<le> daysInMonth y m"
  shows "normalizeDay y m d = (y, m, d)"
  using assms by (subst normalizeDay.simps) simp

lemma normalizeDay_overflow:
  assumes "0 \<le> m" "m \<le> 11" "daysInMonth y m < d" "d \<le> 31"
  shows "normalizeDay y m d = (y, m + 1, d - daysInMonth y m)"
proof -
  have m11: "m \<noteq> 11" using assms by (auto simp: daysInMonth_def)
  have small: "d - daysInMonth y m \<le> 3" using assms daysInMonth_bounds [of y m] by linarith
  have "normalizeDay y m d = normalizeDay y (m + 1) (d - daysInMonth y m)"
    using assms m11 by (subst normalizeDay.simps) simp
  also have "\<dots> = (y, m + 1, d - daysInMonth y m)"
    using assms m11 small daysInMonth_bounds [of y "m + 1"]
    by (intro normalizeDay_in_month) auto
  finally show ?thesis .
qed

lemma time_of_day_no_carry:
  assumes "0 \<le> h" "h < 24" "0 \<le> mi" "mi < 60" "0 \<le> s" "s < (60::int)"
  shows "(h * 3600 + mi * 60 + s) div 86400 = 0"
  using assms by (intro div_pos_pos_trivial) auto

lemma makeDate_calendar:
  assumes "0 \<le> h" "h < 24" "0 \<le> mi" "mi < 60" "0 \<le> s" "s < 60"
  shows "(md_year (makeDate y m d h mi s), md_month (makeDate y m d h mi s),
          md_date (makeDate y m d h mi s)) = normalizeDay y m d"
  using time_of_day_no_carry [OF assms]
  by (simp add: makeDate_def Let_def split: prod.splits)

text \<open>A day from 1 to 31 comes back from the constructor with its month exactly when
  the month has that day.\<close>

lemma makeDate_round_trip:
  assumes "0 \<le> h" "h < 24" "0 \<le> mi" "mi < 60" "0 \<le> s" "s < 60"
    and "0 \<le> m" "m \<le> 11" "1 \<le> d" "d \<le> 31"
  shows "(md_month (makeDate y m d h mi s) = m \<and> md_date (makeDate y m d h mi s) = d)
           \<longleftrightarrow> d \<le> daysInMonth y m"
proof (cases "d \<le> daysInMonth y m")
  case True
  with assms makeDate_calendar [of h mi s y m d] normalizeDay_in_month [of m d y]
  show ?thesis by auto
next
  case False
  with assms makeDate_calendar [of h mi s y m d] normalizeDay_overflow [of m y d]
  show ?thesis by auto
qed

lemma makeDate_in_month:
  assumes "0 \<le> h" "h < 24" "0 \<le> mi" "mi < 60" "0 \<le> s" "s < 60"
    and "0 \<le> m" "m \<le> 11" "1 \<le> d" "d \<le> daysInMonth y m"
  shows "md_year (makeDate y m d h mi s) = y \<and> md_month (makeDate y m d h mi s) = m
           \<and> md_date (makeDate y m d h mi s) = d"
  using assms makeDate_calendar [of h mi s y m d] normalizeDay_in_month [of m d y] by auto

text \<open>Whatever the seconds given, the time of day read back lies within the day.\<close>

lemma time_fields_in_day:
  fixes t :: int
  shows "0 \<le> (t mod 86400) div 3600 \<and> (t mod 86400) div 3600 < 24
     \<and> 0 \<le> ((t mod 86400) mod 3600) div 60 \<and> ((t mod 86400) mod 3600) div 60 < 60
     \<and> 0 \<le> (t mod 86400) mod 60 \<and> (t mod 86400) mod 60 < 60"
proof -
  have a: "0 \<le> t mod 86400" "t mod 86400 \<le> 86399"
    using pos_mod_bound [of 86400 t] by simp_all
  have b: "0 \<le> (t mod 86400) mod 3600" "(t mod 86400) mod 3600 \<le> 3599"
    using pos_mod_bound [of 3600 "t mod 86400"] by simp_all
  have "(t mod 86400) div 3600 \<le> 86399 div 3600"
    by (rule zdiv_mono1) (use a in simp_all)
  then have h: "(t mod 86400) div 3600 < 24" by simp
  have "((t mod 86400) mod 3600) div 60 \<le> 3599 div 60"
    by (rule zdiv_mono1) (use b in simp_all)
  then have m: "((t mod 86400) mod 3600) div 60 < 60" by simp
  have h0: "0 \<le> (t mod 86400) div 3600"
    using a by (simp add: pos_imp_zdiv_nonneg_iff)
  have m0: "0 \<le> ((t mod 86400) mod 3600) div 60"
    using b by (simp add: pos_imp_zdiv_nonneg_iff)
  from h m h0 m0 show ?thesis by simp
qed

lemma makeDate_timeInDay: "timeInDay (makeDate y m d h mi s)"
  using time_fields_in_day [of "h * 3600 + mi * 60 + s"]
  by (simp add: makeDate_def Let_def timeInDay_def split: prod.splits)


text \<open>The years 1 to 99 have the leap days of the years 1901 to 1999.\<close>

lemma mod_4_century: "(1900 + y) mod 4 = (y::int) mod 4"
  using mod_mult_self4 [of 4 475 y] by simp

lemma mod_100_century: "(1900 + y) mod 100 = (y::int) mod 100"
  using mod_mult_self4 [of 100 19 y] by simp

lemma leapYear_century:
  assumes "1 \<le> y" "y \<le> 99"
  shows "leapYear (1900 + y) = leapYear y"
proof -
  have "y mod 100 = y" using assms by simp
  with assms have nz: "y mod 100 \<noteq> 0" by simp
  show ?thesis
    by (simp only: leapYear_def mod_4_century mod_100_century nz simp_thms)
qed

lemma daysInMonth_century:
  assumes "1 \<le> y" "y \<le> 99"
  shows "daysInMonth (1900 + y) m = daysInMonth y m"
  unfolding daysInMonth_def leapYear_century [OF assms] ..

subsection \<open>The parser\<close>

lemma parse_empty: "valid (parse props st []) = False"
  by (simp add: parse_def Let_def)

lemma parse_valid_iff:
  "valid (parse props st v) \<longleftrightarrow>
     length (split_slash v) = 3 \<and>
     (\<exists>y m d. year (parse props st v) = Some y \<and> month (parse props st v) = Some m \<and>
        date (parse props st v) = Some d \<and> 1 \<le> y \<and> 1 \<le> m \<and> m \<le> 12 \<and> 1 \<le> d \<and> d \<le> 31 \<and>
        md_month (parsedDate props st y m d) + 1 = m \<and> md_date (parsedDate props st y m d) = d)"
  unfolding parse_def Let_def
  by (auto simp: isNaN_def num_lt_def num_gt_def split: option.splits)

text \<open>With a reference time inside the day, the date that the parser constructs
  keeps month and day exactly when the month of that year has the day.\<close>

lemma parsedDate_round_trip:
  assumes "timeInDay_opt (initialValue st)" and "1 \<le> m" "m \<le> 12" "1 \<le> d" "d \<le> 31"
  shows "(md_month (parsedDate props st y m d) + 1 = m \<and> md_date (parsedDate props st y m d) = d)
     \<longleftrightarrow> d \<le> daysInMonth (if 0 \<le> y \<and> y \<le> 99 then 1900 + y else y) (m - 1)"
proof (cases "initialValue st")
  case None
  with assms makeDate_round_trip [of 0 0 0 "m - 1" d "if 0 \<le> y \<and> y \<le> 99 then 1900 + y else y"]
  show ?thesis by (auto simp: parsedDate_def newMethodDate_def)
next
  case (Some iv)
  with assms makeDate_round_trip [of "md_hours iv" "md_minutes iv" "md_seconds iv" "m - 1" d
     "if 0 \<le> y \<and> y \<le> 99 then 1900 + y else y"]
  show ?thesis by (auto simp: parsedDate_def newMethodDate_def timeInDay_def)
qed

lemma parse_MDY_feb30:
  assumes "format props = MMDDYYYY"
  shows "length (split_slash ''02/30/2024'') = 3 \<and> year (parse props st ''02/30/2024'') = Some 2024
     \<and> month (parse props st ''02/30/2024'') = Some 2 \<and> date (parse props st ''02/30/2024'') = Some 30"
  using assms by (simp add: parse_def Let_def js_simps)

lemma parse_MDY_apr30:
  assumes "format props = MMDDYYYY"
  shows "length (split_slash ''04/30/2024'') = 3 \<and> year (parse props st ''04/30/2024'') = Some 2024
     \<and> month (parse props st ''04/30/2024'') = Some 4 \<and> date (parse props st ''04/30/2024'') = Some 30"
  using assms by (simp add: parse_def Let_def js_simps)

text \<open>
  Claim C1. For a buffer of three components whose numbers pass the bound checks
  (year at least 1, month 1 to 12, day 1 to 31), \<^verbatim>\<open>parse\<close> answers valid exactly
  when the date constructed from (year, month - 1, day) has that month and that day;
  so it answers valid only if the construction preserves both. In the format
  MM/DD/YYYY, with a reference time inside the day, "02/30/2024" is not valid and
  "04/30/2024" is valid.
\<close>

theorem parse_round_trip:
  "(length (split_slash newValue) = 3 \<and> year (parse props st newValue) = Some y
      \<and> month (parse props st newValue) = Some m \<and> date (parse props st newValue) = Some d
      \<and> 1 \<le> y \<and> 1 \<le> m \<and> m \<le> 12 \<and> 1 \<le> d \<and> d \<le> 31
    \<longrightarrow> (valid (parse props st newValue)
          \<longleftrightarrow> md_month (parsedDate props st y m d) + 1 = m
              \<and> md_date (parsedDate props st y m d) = d))
   \<and> (format props = MMDDYYYY \<and> timeInDay_opt (initialValue st)
    \<longrightarrow> \<not> valid (parse props st ''02/30/2024'') \<and> valid (parse props st ''04/30/2024''))"
proof (intro conjI impI)
  assume "length (split_slash newValue) = 3 \<and> year (parse props st newValue) = Some y
      \<and> month (parse props st newValue) = Some m \<and> date (parse props st newValue) = Some d
      \<and> 1 \<le> y \<and> 1 \<le> m \<and> m \<le> 12 \<and> 1 \<le> d \<and> d \<le> 31"
  then show "valid (parse props st newValue)
          \<longleftrightarrow> md_month (parsedDate props st y m d) + 1 = m
              \<and> md_date (parsedDate props st y m d) = d"
    by (simp add: parse_valid_iff [of props st newValue])
next
  assume a: "format props = MMDDYYYY \<and> timeInDay_opt (initialValue st)"
  have "\<not> 30 \<le> daysInMonth 2024 1" by (simp add: daysInMonth_def leapYear_def)
  with a parsedDate_round_trip [of st 2 30 props 2024] parse_MDY_feb30 [of props st]
  show "\<not> valid (parse props st ''02/30/2024'')"
    by (simp add: parse_valid_iff [of props st "''02/30/2024''"])
next
  assume a: "format props = MMDDYYYY \<and> timeInDay_opt (initialValue st)"
  have "30 \<le> daysInMonth 2024 3" by (simp add: daysInMonth_def)
  with a parsedDate_round_trip [of st 4 30 props 2024] parse_MDY_apr30 [of props st]
  show "valid (parse props st ''04/30/2024'')"
    by (simp add: parse_valid_iff [of props st "''04/30/2024''"])
qed


theorem parse_round_trip_witness:
  "length (split_slash ''04/31/2024'') = 3 \<and>
   year (parse (sample_props MMDDYYYY True) (sample_state '''' False) ''04/31/2024'') = Some 2024 \<and>
   month (parse (sample_props MMDDYYYY True) (sample_state '''' False) ''04/31/2024'') = Some 4 \<and>
   date (parse (sample_props MMDDYYYY True) (sample_state '''' False) ''04/31/2024'') = Some 31 \<and>
   \<not> valid (parse (sample_props MMDDYYYY True) (sample_state '''' False) ''04/31/2024'') \<and>
   md_month (parsedDate (sample_props MMDDYYYY True) (sample_state '''' False) 2024 4 31) = 4 \<and>
   md_date (parsedDate (sample_props MMDDYYYY True) (sample_state '''' False) 2024 4 31) = 1 \<and>
   format (sample_props MMDDYYYY True) = MMDDYYYY \<and>
   timeInDay_opt (initialValue (sample_state '''' False)) \<and>
   \<not> valid (parse (sample_props MMDDYYYY True) (sample_state '''' False) ''02/30/2024'') \<and>
   valid (parse (sample_props MMDDYYYY True) (sample_state '''' False) ''04/30/2024'')"
proof -
  have fields: "length (split_slash ''04/31/2024'') = 3 \<and>
   year (parse (sample_props MMDDYYYY True) (sample_state '''' False) ''04/31/2024'') = Some 2024 \<and>
   month (parse (sample_props MMDDYYYY True) (sample_state '''' False) ''04/31/2024'') = Some 4 \<and>
   date (parse (sample_props MMDDYYYY True) (sample_state '''' False) ''04/31/2024'') = Some 31"
    by (simp add: parse_def Let_def js_simps sample_props_def)
  have built: "md_month (parsedDate (sample_props MMDDYYYY True) (sample_state '''' False) 2024 4 31) = 4 \<and>
   md_date (parsedDate (sample_props MMDDYYYY True) (sample_state '''' False) 2024 4 31) = 1"
    by (simp add: parsedDate_def sample_state_def sample_date_def newMethodDate_def makeDate_def
        normalizeDay.simps daysInMonth_def leapYear_def)
  have pre: "format (sample_props MMDDYYYY True) = MMDDYYYY \<and>
     timeInDay_opt (initialValue (sample_state '''' False))"
    by (simp add: sample_props_def sample_state_def sample_date_def timeInDay_def)
  from parse_round_trip [of "''04/31/2024''" "sample_props MMDDYYYY True" "sample_state '''' False"
      2024 4 31] fields built pre
  show ?thesis by simp
qed

subsection \<open>The typing assist\<close>

text \<open>
  Claim C3, as amended. In the formats MM/DD/YYYY and DD/MM/YYYY a new text of 6 to 10
  characters, which is where the characters of the year land, comes back from
  \<^verbatim>\<open>handleTyping\<close> as it was typed, and in every format a text of more than 10
  characters is cut to 10. In the format YYYY/MM/DD the first three characters of the
  year come back as typed, and the fourth has the separator appended to it.
\<close>

theorem handleTyping_year_segment:
  "(format props \<noteq> YYYYMMDD \<and> 6 \<le> length newValue \<and> length newValue \<le> 10
      \<longrightarrow> handleTyping props st newValue = newValue) \<and>
   (10 < length newValue \<longrightarrow> handleTyping props st newValue = take 10 newValue) \<and>
   (format props = YYYYMMDD \<and> 1 \<le> length newValue \<and> length newValue \<le> 3
      \<longrightarrow> handleTyping props st newValue = newValue) \<and>
   (format props = YYYYMMDD \<and> length newValue = 4
      \<longrightarrow> handleTyping props st newValue = newValue @ ''/'')"
  by (cases "format props") (auto simp: handleTyping_def)

theorem handleTyping_year_segment_witness:
  "format (sample_props MMDDYYYY True) \<noteq> YYYYMMDD \<and>
   handleTyping (sample_props MMDDYYYY True) (sample_state ''03/03/2'' False) ''03/03/20''
     = ''03/03/20'' \<and>
   handleTyping (sample_props MMDDYYYY True) (sample_state ''03/03/2024'' False) ''03/03/20245''
     = ''03/03/2024'' \<and>
   handleTyping (sample_props YYYYMMDD True) (sample_state ''20'' False) ''202'' = ''202'' \<and>
   handleTyping (sample_props YYYYMMDD True) (sample_state ''202'' False) ''2024'' = ''2024/''"
  using
    handleTyping_year_segment [of "sample_props MMDDYYYY True" "''03/03/20''"
      "sample_state ''03/03/2'' False"]
    handleTyping_year_segment [of "sample_props MMDDYYYY True" "''03/03/20245''"
      "sample_state ''03/03/2024'' False"]
    handleTyping_year_segment [of "sample_props YYYYMMDD True" "''202''"
      "sample_state ''20'' False"]
    handleTyping_year_segment [of "sample_props YYYYMMDD True" "''2024''"
      "sample_state ''202'' False"]
  by (simp add: sample_props_def)

text \<open>
  Claim C3 as it is written fails in the format YYYY/MM/DD: the fourth character of
  the year is followed by an inserted separator.
\<close>

theorem handleTyping_year_segment_counterexample:
  "handleTyping (sample_props YYYYMMDD True) (sample_state ''202'' False) ''2024'' = ''2024/''"
  by (simp add: handleTyping_def sample_props_def)

text \<open>
  Claim C4, as amended. In the format MM/DD/YYYY, with no paste pending and the flag
  \<^verbatim>\<open>invalid\<close> clear: typing "2" into the empty buffer gives the buffer "02/".
  Typing "1" into the empty buffer gives the buffer "1", with no zero put before it,
  and leaves the flag \<^verbatim>\<open>invalid\<close> clear; in the state so reached, typing "3" is
  rejected, the buffer stays "1" and the flag stays clear, while "0", "1" or "2"
  completes the month and appends the separator. The same holds in every state with
  the buffer "1" and the flag clear.
\<close>

theorem typing_month_MDY:
  assumes "format props = MMDDYYYY" and "\<not> truthy paste" and "\<not> invalid st"
  shows "(value_str st = [] \<longrightarrow>
            acceptedBuffer (onInput hp props st paste ''2'') = Some ''02/'' \<and>
            acceptedBuffer (onInput hp props st paste ''1'') = Some ''1'' \<and>
            (\<exists>st1 st2.
               onInput hp props st paste ''1'' = Inr (st1, paste) \<and>
               value_str st1 = ''1'' \<and> \<not> invalid st1 \<and> \<not> error st1 \<and> dateValue st1 = None \<and>
               onInput hp props st1 paste ''13'' = Inr (st2, paste) \<and>
               value_str st2 = ''1'' \<and> \<not> invalid st2 \<and> dateValue st2 = None \<and>
               acceptedBuffer (onInput hp props st1 paste ''10'') = Some ''10/'' \<and>
               acceptedBuffer (onInput hp props st1 paste ''11'') = Some ''11/'' \<and>
               acceptedBuffer (onInput hp props st1 paste ''12'') = Some ''12/'')) \<and>
         (value_str st = ''1'' \<longrightarrow>
            acceptedBuffer (onInput hp props st paste ''13'') = Some ''1'' \<and>
            acceptedBuffer (onInput hp props st paste ''10'') = Some ''10/'' \<and>
            acceptedBuffer (onInput hp props st paste ''11'') = Some ''11/'' \<and>
            acceptedBuffer (onInput hp props st paste ''12'') = Some ''12/'')"
proof -
  have one: "acceptedBuffer (onInput hp props s paste ''13'') = Some ''1'' \<and>
            acceptedBuffer (onInput hp props s paste ''10'') = Some ''10/'' \<and>
            acceptedBuffer (onInput hp props s paste ''11'') = Some ''11/'' \<and>
            acceptedBuffer (onInput hp props s paste ''12'') = Some ''12/''"
    if "value_str s = ''1''" "\<not> invalid s" for s
    using that assms(1,2) by (simp add: acceptedBuffer_def onInput_simps js_simps)
  have rej: "onInput hp props s paste ''13'' =
      Inr (s\<lparr>value_str := ''1'', invalid := False, error := False, dateValue := None,
              initialValue := initialValue s\<rparr>, paste)"
    if "value_str s = ''1''" "\<not> invalid s" for s
    using that assms(1,2) by (simp add: onInput_simps js_simps)
  have two: "acceptedBuffer (onInput hp props st paste ''2'') = Some ''02/''"
    if "value_str st = []"
    using that assms by (simp add: acceptedBuffer_def onInput_simps js_simps)
  define st1 where "st1 = st\<lparr>value_str := ''1'', invalid := False, error := False,
      dateValue := None, initialValue := initialValue st\<rparr>"
  have first: "onInput hp props st paste ''1'' = Inr (st1, paste)" if "value_str st = []"
    using that assms unfolding st1_def by (simp add: onInput_simps js_simps)
  have s1: "value_str st1 = ''1''" "\<not> invalid st1" "\<not> error st1" "dateValue st1 = None"
    by (simp_all add: st1_def)
  have chain: "\<exists>st1 st2.
               onInput hp props st paste ''1'' = Inr (st1, paste) \<and>
               value_str st1 = ''1'' \<and> \<not> invalid st1 \<and> \<not> error st1 \<and> dateValue st1 = None \<and>
               onInput hp props st1 paste ''13'' = Inr (st2, paste) \<and>
               value_str st2 = ''1'' \<and> \<not> invalid st2 \<and> dateValue st2 = None \<and>
               acceptedBuffer (onInput hp props st1 paste ''10'') = Some ''10/'' \<and>
               acceptedBuffer (onInput hp props st1 paste ''11'') = Some ''11/'' \<and>
               acceptedBuffer (onInput hp props st1 paste ''12'') = Some ''12/''"
    if e: "value_str st = []"
  proof (intro exI conjI)
    show "onInput hp props st paste ''1'' = Inr (st1, paste)" by (rule first [OF e])
    show "onInput hp props st1 paste ''13'' =
      Inr (st1\<lparr>value_str := ''1'', invalid := False, error := False, dateValue := None,
              initialValue := initialValue st1\<rparr>, paste)"
      by (rule rej [OF s1(1,2)])
  qed (use s1 one [OF s1(1,2)] in simp_all)
  have a1: "acceptedBuffer (onInput hp props st paste ''1'') = Some ''1''" if e: "value_str st = []"
    using first [OF e] s1 by (simp add: acceptedBuffer_def)
  from one [of st] assms(3) two a1 chain show ?thesis by blast
qed


theorem typing_month_MDY_witness:
  "format (sample_props MMDDYYYY True) = MMDDYYYY \<and> \<not> truthy PasteFalse \<and>
   \<not> invalid (sample_state '''' False) \<and> value_str (sample_state '''' False) = [] \<and>
   acceptedBuffer (onInput sample_helpers (sample_props MMDDYYYY True) (sample_state '''' False)
      PasteFalse ''2'') = Some ''02/'' \<and>
   onInput sample_helpers (sample_props MMDDYYYY True) (sample_state '''' False) PasteFalse ''1''
      = Inr (sample_state ''1'' False, PasteFalse) \<and>
   onInput sample_helpers (sample_props MMDDYYYY True) (sample_state ''1'' False) PasteFalse ''13''
      = Inr (sample_state ''1'' False, PasteFalse) \<and>
   acceptedBuffer (onInput sample_helpers (sample_props MMDDYYYY True) (sample_state ''1'' False)
      PasteFalse ''12'') = Some ''12/''"
proof -
  have r1: "onInput sample_helpers (sample_props MMDDYYYY True) (sample_state '''' False)
      PasteFalse ''1'' = Inr (sample_state ''1'' False, PasteFalse)"
    by (simp add: onInput_simps js_simps sample_props_def sample_state_def)
  have r2: "onInput sample_helpers (sample_props MMDDYYYY True) (sample_state ''1'' False)
      PasteFalse ''13'' = Inr (sample_state ''1'' False, PasteFalse)"
    by (simp add: onInput_simps js_simps sample_props_def sample_state_def)
  from
    typing_month_MDY [of "sample_props MMDDYYYY True" PasteFalse "sample_state '''' False"
      sample_helpers]
    typing_month_MDY [of "sample_props MMDDYYYY True" PasteFalse "sample_state ''1'' False"
      sample_helpers]
    r1 r2
  show ?thesis by (simp add: sample_props_def sample_state_def)
qed

text \<open>
  Claim C4 as it is written has the buffer read "01" after the first "1"; the handler
  leaves "1".
\<close>

theorem typing_month_MDY_counterexample:
  "acceptedBuffer (onInput sample_helpers (sample_props MMDDYYYY True) (sample_state '''' False)
      PasteFalse ''1'') = Some ''1''"
  by (simp add: acceptedBuffer_def onInput_simps js_simps sample_props_def sample_state_def)

text \<open>
  Claim C5, as amended. When the character typed first into a month segment is a
  digit above 1, or into a day segment a digit above 3, the digit gets a "0" before
  it. At position 1 the result is that pair and the separator; at position 2 it is the
  text before the segment, the pair and the separator; at position 3, the day of
  YYYY/MM/DD, it is the text before the segment and the pair, with no separator.
\<close>

theorem first_digit_too_large:
  assumes "pre = [] \<or> last pre = CHR ''/''"
  shows "(c \<in> set ''23456789'' \<longrightarrow>
            handleMonth st (pre @ [c]) position =
              (if 1 < position then pre @ ''0'' @ [c] else ''0'' @ [c])
              @ (if position < 3 then ''/'' else '''')) \<and>
         (c \<in> set ''456789'' \<longrightarrow>
            handleDay st (pre @ [c]) position =
              (if 1 < position then pre @ ''0'' @ [c] else ''0'' @ [c])
              @ (if position < 3 then ''/'' else ''''))"
proof -
  have first: "length (pre @ [c]) = 1
      \<or> charAt (pre @ [c]) (int (length (pre @ [c])) - 2) = Some CHR ''/''"
    using assms charAt_before_last [of pre c] by auto
  have month: "handleMonth st (pre @ [c]) position =
              (if 1 < position then pre @ ''0'' @ [c] else ''0'' @ [c])
              @ (if position < 3 then ''/'' else '''')" if "c \<in> set ''23456789''"
  proof -
    from month_digit [OF that]
    obtain n where n: "parseInt [c] = Some n" "1 < n" "toString n = [c]"
      by blast
    show ?thesis
      unfolding handleMonth_def Let_def parseIntAt_last replaceAt_last
      using first n by simp
  qed
  have day: "handleDay st (pre @ [c]) position =
              (if 1 < position then pre @ ''0'' @ [c] else ''0'' @ [c])
              @ (if position < 3 then ''/'' else '''')" if "c \<in> set ''456789''"
  proof -
    from day_digit [OF that]
    obtain n where n: "parseInt [c] = Some n" "3 < n" "toString n = [c]"
      by blast
    show ?thesis
      unfolding handleDay_def Let_def parseIntAt_last replaceAt_last
      using first n by simp
  qed
  from month day show ?thesis by blast
qed

theorem first_digit_too_large_witness:
  "handleDay (sample_state ''02/'' False) ''02/4'' 2 = ''02/04/'' \<and>
   handleDay (sample_state '''' False) ''4'' 1 = ''04/'' \<and>
   handleDay (sample_state ''2024/12/'' False) ''2024/12/4'' 3 = ''2024/12/04'' \<and>
   handleMonth (sample_state '''' False) ''2'' 1 = ''02/''"
  using first_digit_too_large [of "''02/''" "CHR ''4''" "sample_state ''02/'' False" 2]
    first_digit_too_large [of "''''" "CHR ''4''" "sample_state '''' False" 1]
    first_digit_too_large [of "''2024/12/''" "CHR ''4''" "sample_state ''2024/12/'' False" 3]
    first_digit_too_large [of "''''" "CHR ''2''" "sample_state '''' False" 1]
  by simp

text \<open>
  Claim C5 as it is written promises the separator at every position; at position 3
  the padded day ends the buffer.
\<close>

theorem first_digit_too_large_counterexample:
  "handleDay (sample_state ''2024/12/'' False) ''2024/12/4'' 3 = ''2024/12/04''"
  by (simp add: handleDay_def js_simps)

subsection \<open>The edit handler\<close>

text \<open>The parts of a run of \<^verbatim>\<open>onInput\<close> that does not throw.\<close>

lemma onInput_parts:
  assumes "onInput hp props st paste raw = Inr (st', paste')"
  shows "\<exists>nv iflag1 iv1 dv1 nv' iflag2 iv2 dv2.
           onInput_edit hp props st paste raw = (nv, iflag1, iv1, dv1, paste') \<and>
           onInput_resolve hp props st nv (if length nv = 0 then False else iflag1) iv1 dv1
             = Inr (nv', iflag2, iv2, dv2) \<and>
           st' = st\<lparr>value_str := nv', invalid := iflag2, error := iflag2,
                     dateValue := dv2, initialValue := iv2\<rparr>"
proof -
  obtain nv iflag1 iv1 dv1 p1 where
    e: "onInput_edit hp props st paste raw = (nv, iflag1, iv1, dv1, p1)"
    using prod_cases5 by blast
  show ?thesis
    using assms unfolding onInput_def e
    by (cases "nv = []") (auto split: sum.splits prod.splits)
qed

text \<open>
  The reference date is never \<^verbatim>\<open>null\<close>: the initial state has one, the calendar
  selection keeps it, and an input event on a state that has one does not throw and
  leaves one.
\<close>

lemma onInput_edit_reference:
  assumes "initialValue st \<noteq> None"
  shows "fst (snd (snd (onInput_edit hp props st paste raw))) \<noteq> None"
  using assms by (simp add: onInput_edit_def Let_def split: option.splits)

lemma onInput_resolve_total:
  assumes "iv \<noteq> None"
  shows "\<exists>nv' iflag' iv' dv'.
           onInput_resolve hp props st nv iflag iv dv = Inr (nv', iflag', iv', dv') \<and> iv' \<noteq> None"
  using assms unfolding onInput_resolve_def Let_def
  by (auto split: option.splits prod.splits)

lemma onInput_total:
  assumes "initialValue st \<noteq> None"
  shows "\<exists>st' paste'. onInput hp props st paste raw = Inr (st', paste') \<and> initialValue st' \<noteq> None"
proof -
  obtain nv iflag1 iv1 dv1 p1 where
    e: "onInput_edit hp props st paste raw = (nv, iflag1, iv1, dv1, p1)"
    using prod_cases5 by blast
  with onInput_edit_reference [OF assms, of hp props paste raw] have "iv1 \<noteq> None" by simp
  from onInput_resolve_total [OF this, of hp props st nv "if length nv = 0 then False else iflag1" dv1]
  obtain nv' iflag' iv' dv' where
    r: "onInput_resolve hp props st nv (if length nv = 0 then False else iflag1) iv1 dv1
          = Inr (nv', iflag', iv', dv')" and "iv' \<noteq> None"
    by blast
  then show ?thesis unfolding onInput_def e by simp
qed

lemma initialState_reference: "initialValue (fst (initialState hp props)) \<noteq> None"
  by (simp add: initialState_def getInitialState_def Let_def
      split: prod.splits option.splits seed.splits)

lemma onSelect_reference: "initialValue (onSelect hp props st newValue) = initialValue st"
  by (simp add: onSelect_def)

text \<open>A text of at most 11 characters is kept as it is, and what the parser says about
  it decides the parsed date.\<close>

lemma resolve_short:
  assumes "onInput_resolve hp props st nv iflag iv dv = Inr (nv', iflag', iv', dv')"
    and "length nv \<le> 11"
  shows "nv' = nv \<and> iv' = iv \<and> (valid (parse props st nv) \<longrightarrow> \<not> iflag')
     \<and> (\<not> valid (parse props st nv) \<longrightarrow> iflag' = iflag \<and> dv' = None)"
  using assms unfolding onInput_resolve_def Let_def
  by (auto split: if_splits option.splits prod.splits)

lemma resolve_empty_result:
  assumes "onInput_resolve hp props st nv iflag iv dv = Inr ([], iflag', iv', dv')"
    and "\<forall>d. formatDate hp d (format props) (localTimezone props) \<noteq> []"
  shows "nv = [] \<and> dv' = None \<and> iflag' = iflag"
proof (cases "11 < length nv")
  case True
  with assms show ?thesis
    unfolding onInput_resolve_def by (auto split: option.splits)
next
  case False
  with assms(1) resolve_short [of hp props st nv iflag iv dv "[]" iflag' iv' dv']
  show ?thesis by (auto simp: parse_empty)
qed

lemma init_empty:
  assumes "\<not> seedGiven (prop_initialValue props)"
  shows "initialState hp props =
     (\<lparr>value_str = [], dateValue = None, initialValue = Some (today hp (localTimezone props)),
       visible = False, invalid = False, error = False\<rparr>, PasteFalse)"
  using assms by (simp add: initialState_def getInitialState_def Let_def)

lemma onInput_empty_buffer:
  assumes fmt: "\<forall>d. formatDate hp d (format props) (localTimezone props) \<noteq> []"
    and run: "onInput hp props st paste raw = Inr (st', paste')" and empty: "value_str st' = []"
  shows "\<not> invalid st' \<and> \<not> error st' \<and> dateValue st' = None"
proof -
  from onInput_parts [OF run] obtain nv iflag1 iv1 dv1 nv' iflag2 iv2 dv2 where
    r: "onInput_resolve hp props st nv (if length nv = 0 then False else iflag1) iv1 dv1
          = Inr (nv', iflag2, iv2, dv2)"
    and st': "st' = st\<lparr>value_str := nv', invalid := iflag2, error := iflag2,
                       dateValue := dv2, initialValue := iv2\<rparr>"
    by blast
  from st' empty have nv': "nv' = []" by simp
  from r have r': "onInput_resolve hp props st nv (if length nv = 0 then False else iflag1) iv1 dv1
          = Inr ([], iflag2, iv2, dv2)" unfolding nv' .
  from resolve_empty_result [OF r' fmt]
  have "nv = []" "dv2 = None" "iflag2 = (if length nv = 0 then False else iflag1)" by blast+
  then have "dv2 = None" "iflag2 = False" by simp_all
  then show ?thesis unfolding st' by simp
qed

text \<open>
  Claim C9. Without a seed the component starts with the empty buffer, the flags
  \<^verbatim>\<open>invalid\<close> and \<^verbatim>\<open>error\<close> clear and no parsed date. Every input event that
  leaves the buffer empty leaves it in that condition too, given that the printer of
  dates never prints the empty text.
\<close>

theorem empty_buffer_not_error:
  "(\<not> seedGiven (prop_initialValue props) \<longrightarrow>
      value_str (fst (initialState hp props)) = [] \<and> \<not> invalid (fst (initialState hp props))
      \<and> \<not> error (fst (initialState hp props)) \<and> dateValue (fst (initialState hp props)) = None)
   \<and> ((\<forall>d. formatDate hp d (format props) (localTimezone props) \<noteq> [])
        \<and> onInput hp props st paste raw = Inr (st', paste') \<and> value_str st' = []
      \<longrightarrow> \<not> invalid st' \<and> \<not> error st' \<and> dateValue st' = None)"
proof (intro conjI impI)
  assume "\<not> seedGiven (prop_initialValue props)"
  note i = init_empty [OF this, of hp]
  show "value_str (fst (initialState hp props)) = []" by (simp add: i)
  show "\<not> invalid (fst (initialState hp props))" by (simp add: i)
  show "\<not> error (fst (initialState hp props))" by (simp add: i)
  show "dateValue (fst (initialState hp props)) = None" by (simp add: i)
next
  assume a: "(\<forall>d. formatDate hp d (format props) (localTimezone props) \<noteq> [])
        \<and> onInput hp props st paste raw = Inr (st', paste') \<and> value_str st' = []"
  then have e: "\<not> invalid st' \<and> \<not> error st' \<and> dateValue st' = None"
    using onInput_empty_buffer [of hp props st paste raw st' paste'] by blast
  from e show "\<not> invalid st'" by simp
  from e show "\<not> error st'" by simp
  from e show "dateValue st' = None" by simp
qed

theorem empty_buffer_not_error_witness:
  "\<not> seedGiven (prop_initialValue (sample_props MMDDYYYY True)) \<and>
   value_str (fst (initialState sample_helpers (sample_props MMDDYYYY True))) = [] \<and>
   \<not> invalid (fst (initialState sample_helpers (sample_props MMDDYYYY True))) \<and>
   dateValue (fst (initialState sample_helpers (sample_props MMDDYYYY True))) = None \<and>
   (\<forall>d. formatDate sample_helpers d (format (sample_props MMDDYYYY True))
          (localTimezone (sample_props MMDDYYYY True)) \<noteq> []) \<and>
   onInput sample_helpers (sample_props MMDDYYYY True) (sample_state ''0'' False) PasteFalse ''''
     = Inr (sample_state '''' False, PasteFalse) \<and>
   \<not> invalid (sample_state '''' False) \<and> dateValue (sample_state '''' False) = None"
proof -
  have fmt: "\<forall>d. formatDate sample_helpers d (format (sample_props MMDDYYYY True))
          (localTimezone (sample_props MMDDYYYY True)) \<noteq> []"
    by (simp add: sample_helpers_def sample_props_def)
  have run: "onInput sample_helpers (sample_props MMDDYYYY True) (sample_state ''0'' False)
      PasteFalse '''' = Inr (sample_state '''' False, PasteFalse)"
    by (simp add: onInput_simps js_simps sample_props_def sample_state_def)
  have seed: "\<not> seedGiven (prop_initialValue (sample_props MMDDYYYY True))"
    by (simp add: sample_props_def)
  have v: "value_str (sample_state '''' False) = []" by (simp add: sample_state_def)
  from empty_buffer_not_error [of "sample_props MMDDYYYY True" sample_helpers
      "sample_state ''0'' False" PasteFalse "''''" "sample_state '''' False" PasteFalse]
    fmt run seed v
  show ?thesis by simp
qed

text \<open>Deleting the last character: what the first part of the handler makes of it.\<close>

lemma edit_delete_last:
  assumes "\<not> truthy paste" and "value_str st = ys @ [x]"
  shows "fst (onInput_edit hp props st paste ys) =
           (if (ys = [] \<or> last ys \<noteq> x) \<and> x = CHR ''/'' then butlast ys else ys)"
  using assms
  by (simp add: onInput_edit_def Let_def handleDeletion_def substr_def butlast_conv_take
      charAt_snoc charAt_end nat_int_pred)

text \<open>
  Claim C8, as amended. For a buffer of at most 12 characters with no paste pending,
  deleting its last character leaves a shorter buffer. When the deleted character is
  the separator and the character before it is not the separator, two characters go:
  the separator and the character before it. In every other case, a lone or doubled
  separator among them, exactly the last character goes.
\<close>

theorem end_deletion:
  assumes "\<not> truthy paste" and "value_str st \<noteq> []" and "length (value_str st) \<le> 12"
    and "acceptedBuffer (onInput hp props st paste (butlast (value_str st))) = Some b"
  shows "length b < length (value_str st) \<and>
         (2 \<le> length (value_str st) \<and> last (value_str st) = CHR ''/''
            \<and> last (butlast (value_str st)) \<noteq> CHR ''/''
          \<longrightarrow> b = butlast (butlast (value_str st)) \<and> length b + 2 = length (value_str st)) \<and>
         (\<not> (2 \<le> length (value_str st) \<and> last (value_str st) = CHR ''/''
            \<and> last (butlast (value_str st)) \<noteq> CHR ''/'')
          \<longrightarrow> b = butlast (value_str st))"
proof -
  from assms(2) obtain ys x where prev: "value_str st = ys @ [x]"
    by (cases "value_str st" rule: rev_cases) auto
  from assms(4) obtain st' paste' where
    run: "onInput hp props st paste ys = Inr (st', paste')" and b: "b = value_str st'"
    unfolding acceptedBuffer_def prev by (auto split: sum.splits)
  from onInput_parts [OF run] obtain nv iflag1 iv1 dv1 nv' iflag2 iv2 dv2 where
    e: "onInput_edit hp props st paste ys = (nv, iflag1, iv1, dv1, paste')" and
    r: "onInput_resolve hp props st nv (if length nv = 0 then False else iflag1) iv1 dv1
          = Inr (nv', iflag2, iv2, dv2)"
    and st': "st' = st\<lparr>value_str := nv', invalid := iflag2, error := iflag2,
                       dateValue := dv2, initialValue := iv2\<rparr>"
    by blast
  from edit_delete_last [OF assms(1) prev, of hp props] e
  have nv: "nv = (if (ys = [] \<or> last ys \<noteq> x) \<and> x = CHR ''/'' then butlast ys else ys)"
    by simp
  from assms(3) prev have "length ys \<le> 11" by simp
  then have short: "length nv \<le> 11" unfolding nv by auto
  from resolve_short [OF r short] have "nv' = nv" by blast
  with b st' have bn: "b = nv" by simp
  show ?thesis
    unfolding bn nv prev by (cases ys rule: rev_cases) (auto simp: butlast_append)
qed

theorem end_deletion_witness:
  "\<not> truthy PasteFalse \<and> value_str (sample_state ''02/'' False) = ''02/'' \<and>
   acceptedBuffer (onInput sample_helpers (sample_props MMDDYYYY True) (sample_state ''02/'' False)
      PasteFalse ''02'') = Some ''0''"
proof -
  have run: "acceptedBuffer (onInput sample_helpers (sample_props MMDDYYYY True)
      (sample_state ''02/'' False) PasteFalse (butlast (value_str (sample_state ''02/'' False))))
        = Some ''0''"
    by (simp add: acceptedBuffer_def onInput_simps js_simps sample_props_def sample_state_def)
  from end_deletion [of PasteFalse "sample_state ''02/'' False" sample_helpers
      "sample_props MMDDYYYY True" "''0''"] run
  show ?thesis by (simp add: sample_state_def)
qed

text \<open>
  Claim C8 as it is written fails on a doubled separator. Typing the separator twice
  into the empty buffer is accepted, and deleting the second one removes one
  character, not two.
\<close>

theorem end_deletion_counterexample:
  "acceptedBuffer (onInput sample_helpers (sample_props MMDDYYYY True) (sample_state '''' False)
      PasteFalse ''/'') = Some ''/'' \<and>
   acceptedBuffer (onInput sample_helpers (sample_props MMDDYYYY True) (sample_state ''/'' False)
      PasteFalse ''//'') = Some ''//'' \<and>
   acceptedBuffer (onInput sample_helpers (sample_props MMDDYYYY True) (sample_state ''//'' False)
      PasteFalse ''/'') = Some ''/''"
  by (simp add: acceptedBuffer_def onInput_simps js_simps sample_props_def sample_state_def)

text \<open>A valid buffer with a year below 100: the date that the handler stores.\<close>

lemma resolve_two_digit_year:
  assumes short: "length newValue \<le> 11"
    and v: "valid (parse props st newValue)"
    and y: "year (parse props st newValue) = Some y" "y < 100"
    and ref: "timeInDay_opt (initialValue st)"
  shows "\<exists>m d dv'. month (parse props st newValue) = Some m \<and> date (parse props st newValue) = Some d
           \<and> onInput_resolve hp props st newValue iflag (Some i) dv
               = Inr (newValue, False, Some i, Some dv')
           \<and> md_year dv' = y \<and> md_month dv' + 1 = m \<and> md_date dv' = d"
proof -
  from v y(1) obtain m d where
    f: "month (parse props st newValue) = Some m" "date (parse props st newValue) = Some d"
    and bounds: "1 \<le> y" "1 \<le> m" "m \<le> 12" "1 \<le> d" "d \<le> 31"
    and rt: "md_month (parsedDate props st y m d) + 1 = m \<and> md_date (parsedDate props st y m d) = d"
    unfolding parse_valid_iff [of props st newValue] by auto
  from rt parsedDate_round_trip [OF ref bounds(2-5), of props y] bounds(1) y(2)
  have "d \<le> daysInMonth (1900 + y) (m - 1)" by simp
  with daysInMonth_century [of y "m - 1"] bounds(1) y(2)
  have fits: "d \<le> daysInMonth y (m - 1)" by simp
  define dv0 where "dv0 = newMethodDate (localTimezone props) y (m - 1) d
      (md_hours i) (md_minutes i) (md_seconds i)"
  have t0: "timeInDay dv0" unfolding dv0_def newMethodDate_def by (rule makeDate_timeInDay)
  define dv' where "dv' = makeDate y (m - 1) d (md_hours dv0) (md_minutes dv0) (md_seconds dv0)"
  from t0 bounds fits makeDate_in_month [of "md_hours dv0" "md_minutes dv0" "md_seconds dv0"
      "m - 1" d y]
  have fieldsOK: "md_year dv' = y \<and> md_month dv' + 1 = m \<and> md_date dv' = d"
    unfolding dv'_def timeInDay_def by simp
  have "onInput_resolve hp props st newValue iflag (Some i) dv
               = Inr (newValue, False, Some i, Some dv')"
    using short v y f unfolding onInput_resolve_def Let_def dv'_def dv0_def
    by (simp add: setFullYear_def setUTCFullYear_def)
  with f fieldsOK show ?thesis by blast
qed

text \<open>
  Claim C7. When the text that the first part of \<^verbatim>\<open>onInput\<close> hands on has at most
  11 characters, so that it goes to the parser, and it parses valid with a year below
  100, the handler does not throw and the parsed date it stores has exactly that year,
  with the month and the day of the buffer: the constructor's reading of the year as
  1900 + year is undone by setting the full year again, in the time zone mode of the
  component.
\<close>

theorem two_digit_year_kept:
  assumes "onInput_edit hp props st paste raw = (newValue, iflag, Some i, dv, paste')"
    and "length newValue \<le> 11"
    and "valid (parse props st newValue)"
    and "year (parse props st newValue) = Some y" and "y < 100"
    and "timeInDay_opt (initialValue st)"
  shows "\<exists>st' dv'. onInput hp props st paste raw = Inr (st', paste') \<and> value_str st' = newValue
           \<and> dateValue st' = Some dv' \<and> md_year dv' = y
           \<and> month (parse props st newValue) = Some (md_month dv' + 1)
           \<and> date (parse props st newValue) = Some (md_date dv')"
proof -
  from resolve_two_digit_year [OF assms(2-6), of hp "if length newValue = 0 then False else iflag" i dv]
  obtain m d dv' where
    f: "month (parse props st newValue) = Some m" "date (parse props st newValue) = Some d"
    and r: "onInput_resolve hp props st newValue (if length newValue = 0 then False else iflag)
              (Some i) dv = Inr (newValue, False, Some i, Some dv')"
    and ok: "md_year dv' = y \<and> md_month dv' + 1 = m \<and> md_date dv' = d"
    by blast
  have "onInput hp props st paste raw =
      Inr (st\<lparr>value_str := newValue, invalid := False, error := False,
              dateValue := Some dv', initialValue := Some i\<rparr>, paste')"
    unfolding onInput_def assms(1) using r by simp
  with f ok show ?thesis by simp
qed


theorem two_digit_year_kept_witness:
  "onInput_edit sample_helpers (sample_props MMDDYYYY True) (sample_state ''01/01/4'' False)
       PasteFalse ''01/01/45''
     = (''01/01/45'', False, Some sample_date, None, PasteFalse) \<and>
   valid (parse (sample_props MMDDYYYY True) (sample_state ''01/01/4'' False) ''01/01/45'') \<and>
   year (parse (sample_props MMDDYYYY True) (sample_state ''01/01/4'' False) ''01/01/45'')
     = Some 45 \<and>
   timeInDay_opt (initialValue (sample_state ''01/01/4'' False)) \<and>
   onInput sample_helpers (sample_props MMDDYYYY True) (sample_state ''01/01/4'' False)
       PasteFalse ''01/01/45''
     = Inr ((sample_state ''01/01/45'' False)
             \<lparr>dateValue := Some (sample_date\<lparr>md_year := 45, md_month := 0, md_date := 1\<rparr>)\<rparr>,
            PasteFalse) \<and>
   md_year (newMethodDate True 45 0 1 12 0 0) = 1945"
proof -
  have e: "onInput_edit sample_helpers (sample_props MMDDYYYY True)
       (sample_state ''01/01/4'' False) PasteFalse ''01/01/45''
     = (''01/01/45'', False, Some sample_date, None, PasteFalse)"
    by (simp add: onInput_simps js_simps sample_simps)
  have v: "valid (parse (sample_props MMDDYYYY True) (sample_state ''01/01/4'' False) ''01/01/45'')
    \<and> year (parse (sample_props MMDDYYYY True) (sample_state ''01/01/4'' False) ''01/01/45'')
     = Some 45"
    by (simp add: parse_def Let_def js_simps calendar_simps sample_simps)
  have t: "timeInDay_opt (initialValue (sample_state ''01/01/4'' False))"
    by (simp add: timeInDay_def sample_simps)
  have run: "onInput sample_helpers (sample_props MMDDYYYY True) (sample_state ''01/01/4'' False)
       PasteFalse ''01/01/45''
     = Inr ((sample_state ''01/01/45'' False)
             \<lparr>dateValue := Some (sample_date\<lparr>md_year := 45, md_month := 0, md_date := 1\<rparr>)\<rparr>,
            PasteFalse)"
    by (simp add: onInput_simps js_simps calendar_simps sample_simps)
  have c: "md_year (newMethodDate True 45 0 1 12 0 0) = 1945"
    by (simp add: calendar_simps)
  from two_digit_year_kept [OF e _ _ _ _ t, of 45] v e run c t
  show ?thesis by simp
qed


subsection \<open>Notifications\<close>


lemma resolve_valid:
  assumes "length nv \<le> 11" and "valid (parse props st nv)"
  shows "\<exists>dv'. onInput_resolve hp props st nv iflag (Some i) dv = Inr (nv, False, Some i, Some dv')"
proof -
  from assms(2) obtain y m d where
    "year (parse props st nv) = Some y" "month (parse props st nv) = Some m"
    "date (parse props st nv) = Some d"
    unfolding parse_valid_iff [of props st nv] by auto
  with assms show ?thesis
    unfolding onInput_resolve_def Let_def by simp
qed









text \<open>
  Claim C6, as amended. A paste whose text the free-text reader accepts, whose date
  prints to at most 11 characters that the parser finds valid, and whose UTC string
  is not empty: the event sends exactly one notification and clears the field
  \<^verbatim>\<open>paste\<close>. With a paste callback supplied the notification is the UTC string
  of the pasted date on the paste channel, and nothing goes to the change channel;
  without one it is the UTC string of the parsed date on the change channel.
\<close>

theorem paste_notification:
  assumes "truthy paste" and "fromString hp (localTimezone props) raw = Some dt"
    and "toUTCString hp dt \<noteq> []"
    and "length (formatDate hp (Some dt) (format props) (localTimezone props)) \<le> 11"
    and "valid (parse props st (formatDate hp (Some dt) (format props) (localTimezone props)))"
  shows "\<exists>st' dv. inputEvent hp props st paste raw =
             Inr (st', PasteFalse,
                  if has_onPaste props then [OnPaste (toUTCString hp dt)]
                  else [OnChange (toUTCString hp dv)])
           \<and> dateValue st' = Some dv
           \<and> value_str st' = formatDate hp (Some dt) (format props) (localTimezone props)"
proof -
  define f where "f = formatDate hp (Some dt) (format props) (localTimezone props)"
  have e: "onInput_edit hp props st paste raw
      = (f, False, Some dt, Some (copy dt), PasteString (toUTCString hp dt))"
    using assms(1,2) unfolding onInput_edit_def f_def by simp
  from resolve_valid [of f props st hp "if length f = 0 then False else False" dt "Some (copy dt)"]
    assms(4,5)
  obtain dv where r: "onInput_resolve hp props st f (if length f = 0 then False else False)
      (Some dt) (Some (copy dt)) = Inr (f, False, Some dt, Some dv)"
    unfolding f_def by blast
  define st' where "st' = st\<lparr>value_str := f, invalid := False, error := False,
      dateValue := Some dv, initialValue := Some dt\<rparr>"
  have run: "onInput hp props st paste raw = Inr (st', PasteString (toUTCString hp dt))"
    unfolding onInput_def e st'_def using r by simp
  have "inputEvent hp props st paste raw =
             Inr (st', PasteFalse,
                  if has_onPaste props then [OnPaste (toUTCString hp dt)]
                  else [OnChange (toUTCString hp dv)])"
    unfolding inputEvent_def run componentDidUpdate_def using assms(3)
    by (simp add: st'_def)
  then show ?thesis unfolding st'_def f_def by auto
qed

theorem paste_notification_witness:
  "truthy (onPaste PasteFalse) \<and>
   fromString sample_helpers (localTimezone (sample_props MMDDYYYY True)) ''March 3, 2024''
     = Some sample_date \<and>
   valid (parse (sample_props MMDDYYYY True) (sample_state '''' False) ''03/03/2024'') \<and>
   inputEvent sample_helpers (sample_props MMDDYYYY True) (sample_state '''' False)
       (onPaste PasteFalse) ''March 3, 2024''
     = Inr ((sample_state ''03/03/2024'' False)
              \<lparr>dateValue := Some sample_date\<rparr>, PasteFalse,
            [OnPaste ''Sun, 03 Mar 2024 12:00:00 GMT''])"
proof -
  have v: "valid (parse (sample_props MMDDYYYY True) (sample_state '''' False) ''03/03/2024'')"
    by (simp add: parse_def Let_def js_simps calendar_simps sample_simps)
  have pre: "truthy (onPaste PasteFalse) \<and>
     fromString sample_helpers (localTimezone (sample_props MMDDYYYY True)) ''March 3, 2024''
       = Some sample_date \<and>
     toUTCString sample_helpers sample_date \<noteq> [] \<and>
     formatDate sample_helpers (Some sample_date) (format (sample_props MMDDYYYY True))
       (localTimezone (sample_props MMDDYYYY True)) = ''03/03/2024''"
    by (simp add: onPaste_def sample_simps)
  have run: "inputEvent sample_helpers (sample_props MMDDYYYY True) (sample_state '''' False)
       (onPaste PasteFalse) ''March 3, 2024''
     = Inr ((sample_state ''03/03/2024'' False)
              \<lparr>dateValue := Some sample_date\<rparr>, PasteFalse,
            [OnPaste ''Sun, 03 Mar 2024 12:00:00 GMT''])"
    by (simp add: onPaste_def event_simps onInput_simps js_simps calendar_simps sample_simps)
  from paste_notification [of "onPaste PasteFalse" sample_helpers "sample_props MMDDYYYY True"
      "''March 3, 2024''" sample_date "sample_state '''' False"] pre v run
  show ?thesis by simp
qed

text \<open>
  Claim C6 as it is written sends nothing on the change channel. The paste callback
  is optional, and without it the paste is reported on the change channel.
\<close>

theorem paste_notification_counterexample:
  "notificationsOf (inputEvent sample_helpers (sample_props MMDDYYYY False)
      (sample_state '''' False) (onPaste PasteFalse) ''March 3, 2024'')
     = [OnChange ''Sun, 03 Mar 2024 12:00:00 GMT'']"
  by (simp add: notificationsOf_def onPaste_def event_simps onInput_simps js_simps calendar_simps sample_simps)

subsection \<open>The calendar selection\<close>

text \<open>
  Claim C10. A date picked in the calendar overlay leaves the flag \<^verbatim>\<open>invalid\<close> and
  the reference date \<^verbatim>\<open>initialValue\<close> of the state as they were. A flag set by
  earlier typing therefore survives the selection, and it still switches the typing
  assist off: the next addition is taken as typed.
\<close>

theorem onSelect_frame:
  "invalid (onSelect hp props st newValue) = invalid st \<and>
   initialValue (onSelect hp props st newValue) = initialValue st \<and>
   (invalid st \<longrightarrow>
      (\<forall>paste raw.
         \<not> truthy paste \<and> length (value_str (onSelect hp props st newValue)) < length raw
         \<longrightarrow> fst (onInput_edit hp props (onSelect hp props st newValue) paste raw) = raw))"
  by (simp add: onSelect_def onInput_edit_def Let_def)

theorem onSelect_frame_witness:
  "invalid (onSelect sample_helpers (sample_props MMDDYYYY True) (sample_state ''13'' True)
      sample_date)
   \<and> \<not> truthy PasteFalse
   \<and> fst (onInput_edit sample_helpers (sample_props MMDDYYYY True)
        (onSelect sample_helpers (sample_props MMDDYYYY True) (sample_state ''13'' True)
           sample_date)
        PasteFalse ''03/03/20245'') = ''03/03/20245''"
  using onSelect_frame [of sample_helpers "sample_props MMDDYYYY True"
      "sample_state ''13'' True" sample_date]
  by (simp add: sample_state_def sample_helpers_def sample_props_def onSelect_def)

end
